theory Spec2Isabelle
  imports Complex_Main "HOL-Library.Char_ord" "HOL-Library.List_Lexorder"
begin

section \<open>Data model\<close>

text \<open>
  The statement importer and the reconciliation helper of the QuickBooks command line
  tool (\<^verbatim>\<open>qb/commands/import_cmd.py\<close>, \<^verbatim>\<open>qb/commands/reconcile.py\<close>).

  Python values are modelled as follows. A \<^verbatim>\<open>float\<close> amount is an exact rational
  number. A \<^verbatim>\<open>str\<close> is a \<open>string\<close> whose characters stand for code points below 256.
  An exception that leaves a function is the \<open>Inl\<close> side of its result.
\<close>

datatype py_error =
  ValueError string
  | AttributeError string
  | OverflowError string
  | Exception string

text \<open>
  A normalized statement transaction: the dict built by \<^verbatim>\<open>_parse_ofx\<close> and
  \<^verbatim>\<open>_parse_csv\<close>, which always carries all seven keys.
\<close>

record txn =
  date :: string
  amount :: rat
  fitid :: string
  name :: string
  memo :: string
  txn_type :: string
  check_number :: string

text \<open>
  A ledger document as returned by a query: a JSON object, the
  ledger record, which the commands read through the keys \<^verbatim>\<open>Id\<close>, \<^verbatim>\<open>TotalAmt\<close>,
  \<^verbatim>\<open>Amount\<close>, \<^verbatim>\<open>TxnDate\<close>, \<^verbatim>\<open>DocNumber\<close>, \<^verbatim>\<open>_fitid\<close>, \<^verbatim>\<open>_entity_type\<close>,
  \<^verbatim>\<open>PrivateNote\<close> and \<^verbatim>\<open>PaymentRefNum\<close>. A key that is absent is \<open>None\<close>; a key
  that is present holds a number (the two amounts) or a string (all others).
\<close>

record qb_txn =
  ex_Id :: "string option"
  ex_TotalAmt :: "rat option"
  ex_Amount :: "rat option"
  ex_TxnDate :: "string option"
  ex_DocNumber :: "string option"
  ex_fitid :: "string option"
  ex_entity_type :: "string option"
  ex_PrivateNote :: "string option"
  ex_PaymentRefNum :: "string option"

text \<open>\<^verbatim>\<open>d.get(key, default)\<close> on an optional field.\<close>

definition dict_get :: "'a option \<Rightarrow> 'a \<Rightarrow> 'a" where
  "dict_get v dflt = (case v of None \<Rightarrow> dflt | Some x \<Rightarrow> x)"

section \<open>Dates: \<^verbatim>\<open>datetime.strptime(s, "%Y-%m-%d")\<close>\<close>

text \<open>
  The standard library turns the format into the regular expression
  \<^verbatim>\<open>(\d\d\d\d)-(1[0-2]|0[1-9]|[1-9])-(3[01]|[12]\d|0[1-9]|[1-9]| [1-9])\<close>, matches it at
  the start of the string, and raises \<^verbatim>\<open>ValueError\<close> when the match fails, when text
  remains after it, or when the numbers are not a date of the proleptic Gregorian
  calendar with a year of at least 1. The resulting \<^verbatim>\<open>datetime\<close> (at midnight) is
  represented by its ordinal day number, so that \<^verbatim>\<open>(a - b).days\<close> is a difference of
  ordinals.
\<close>

definition digit :: "char \<Rightarrow> bool" where
  "digit c = (c \<in> set ''0123456789'')"

definition digit19 :: "char \<Rightarrow> bool" where
  "digit19 c = (c \<in> set ''123456789'')"

definition digit_val :: "char \<Rightarrow> nat" where
  "digit_val c = of_char c - 48"

fun re_m :: "string \<Rightarrow> (nat \<times> string) option" where
  "re_m (a # b # s) =
     (if a = CHR ''1'' \<and> b \<in> set ''012'' then Some (10 + digit_val b, s)
      else if a = CHR ''0'' \<and> digit19 b then Some (digit_val b, s)
      else if digit19 a then Some (digit_val a, b # s)
      else None)"
| "re_m [a] = (if digit19 a then Some (digit_val a, []) else None)"
| "re_m [] = None"

fun re_d :: "string \<Rightarrow> (nat \<times> string) option" where
  "re_d (a # b # s) =
     (if a = CHR ''3'' \<and> b \<in> set ''01'' then Some (30 + digit_val b, s)
      else if a \<in> set ''12'' \<and> digit b then Some (10 * digit_val a + digit_val b, s)
      else if a = CHR ''0'' \<and> digit19 b then Some (digit_val b, s)
      else if digit19 a then Some (digit_val a, b # s)
      else if a = CHR '' '' \<and> digit19 b then Some (digit_val b, s)
      else None)"
| "re_d [a] = (if digit19 a then Some (digit_val a, []) else None)"
| "re_d [] = None"

definition is_leap :: "nat \<Rightarrow> bool" where
  "is_leap y = (y mod 4 = 0 \<and> (y mod 100 \<noteq> 0 \<or> y mod 400 = 0))"

definition days_in_month :: "nat \<Rightarrow> nat \<Rightarrow> nat" where
  "days_in_month y m =
     (if m = 2 \<and> is_leap y then 29
      else [0, 31, 28, 31, 30, 31, 30, 31, 31, 30, 31, 30, 31] ! m)"

definition days_before_year :: "nat \<Rightarrow> nat" where
  "days_before_year y = (y - 1) * 365 + (y - 1) div 4 - (y - 1) div 100 + (y - 1) div 400"

definition days_before_month :: "nat \<Rightarrow> nat \<Rightarrow> nat" where
  "days_before_month y m =
     [0, 0, 31, 59, 90, 120, 151, 181, 212, 243, 273, 304, 334] ! m
       + (if m > 2 \<and> is_leap y then 1 else 0)"

definition ymd2ord :: "nat \<Rightarrow> nat \<Rightarrow> nat \<Rightarrow> int" where
  "ymd2ord y m d = int (days_before_year y + days_before_month y m + d)"

text \<open>\<open>None\<close> stands for \<^verbatim>\<open>ValueError\<close>.\<close>

fun strptime :: "string \<Rightarrow> int option" where
  "strptime (y1 # y2 # y3 # y4 # dash # s) =
     (if digit y1 \<and> digit y2 \<and> digit y3 \<and> digit y4 \<and> dash = CHR ''-'' then
        (case re_m s of
           None \<Rightarrow> None
         | Some (m, s') \<Rightarrow>
             (case s' of
                [] \<Rightarrow> None
              | dash' # s'' \<Rightarrow>
                  if dash' = CHR ''-'' then
                    (case re_d s'' of
                       None \<Rightarrow> None
                     | Some (d, s''') \<Rightarrow>
                         let y = 1000 * digit_val y1 + 100 * digit_val y2
                                   + 10 * digit_val y3 + digit_val y4
                         in if s''' = [] \<and> 1 \<le> y \<and> d \<le> days_in_month y m
                            then Some (ymd2ord y m d) else None)
                  else None))
      else None)"
| "strptime _ = None"

section \<open>The matcher: \<^verbatim>\<open>_match_transactions\<close>\<close>

text \<open>\<^verbatim>\<open>float(ex.get("TotalAmt", ex.get("Amount", 0)))\<close>\<close>

definition ex_amt :: "qb_txn \<Rightarrow> rat" where
  "ex_amt ex = dict_get (ex_TotalAmt ex) (dict_get (ex_Amount ex) 0)"

text \<open>The amount check: the candidate is skipped when this holds.\<close>

definition amount_differs :: "txn \<Rightarrow> qb_txn \<Rightarrow> bool" where
  "amount_differs imp ex = (\<bar>\<bar>amount imp\<bar> - \<bar>ex_amt ex\<bar>\<bar> > 1 / 100)"

text \<open>
  The \<^verbatim>\<open>try\<close> block of the date check: both dates are cut to ten characters and
  parsed; a \<^verbatim>\<open>ValueError\<close> of either sets the distance to 999.
\<close>

definition days_diff :: "string \<Rightarrow> string \<Rightarrow> int" where
  "days_diff imp_date ex_date =
     (case strptime (take 10 imp_date) of
        None \<Rightarrow> 999
      | Some d_imp \<Rightarrow>
          (case strptime (take 10 ex_date) of
             None \<Rightarrow> 999
           | Some d_ex \<Rightarrow> \<bar>d_imp - d_ex\<bar>))"

text \<open>The identifier test of the exact match (a string is true when it is not empty).\<close>

definition id_match :: "txn \<Rightarrow> qb_txn \<Rightarrow> bool" where
  "id_match imp ex =
     ((fitid imp \<noteq> [] \<and> fitid imp = dict_get (ex_fitid ex) [])
      \<or> (check_number imp \<noteq> [] \<and> check_number imp = dict_get (ex_DocNumber ex) []))"

text \<open>
  The distance to the current best match, as the probable-match test computes it again:
  outside the \<^verbatim>\<open>try\<close> block, with \<^verbatim>\<open>"1900-01-01"\<close> for a best match without a
  \<^verbatim>\<open>TxnDate\<close>. Here a date that does not parse raises.
\<close>

definition best_distance :: "txn \<Rightarrow> qb_txn \<Rightarrow> py_error + int" where
  "best_distance imp best =
     (case strptime (take 10 (date imp)) of
        None \<Rightarrow> Inl (ValueError ''time data does not match format'')
      | Some d_imp \<Rightarrow>
          (case strptime (take 10 (dict_get (ex_TxnDate best) ''1900-01-01'')) of
             None \<Rightarrow> Inl (ValueError ''time data does not match format'')
           | Some d_best \<Rightarrow> Inr \<bar>d_imp - d_best\<bar>))"

datatype match_kind = Exact | Probable

text \<open>
  The inner loop over the ledger records, for one statement transaction. The state is
  the pair of the variables \<^verbatim>\<open>best_match\<close> and \<^verbatim>\<open>match_type\<close>; \<^verbatim>\<open>continue\<close> goes on
  with the state unchanged and \<^verbatim>\<open>break\<close> returns it.
\<close>

fun scan_existing ::
  "txn \<Rightarrow> int \<Rightarrow> qb_txn list \<Rightarrow> qb_txn option \<times> match_kind option
     \<Rightarrow> py_error + (qb_txn option \<times> match_kind option)" where
  "scan_existing imp tolerance_days [] st = Inr st"
| "scan_existing imp tolerance_days (ex # rest) (best_match, match_type) =
     (if amount_differs imp ex then
        scan_existing imp tolerance_days rest (best_match, match_type)
      else if days_diff (date imp) (dict_get (ex_TxnDate ex) []) > tolerance_days then
        scan_existing imp tolerance_days rest (best_match, match_type)
      else if days_diff (date imp) (dict_get (ex_TxnDate ex) []) = 0 \<and> id_match imp ex then
        Inr (Some ex, Some Exact)
      else
        (case best_match of
           None \<Rightarrow> scan_existing imp tolerance_days rest (Some ex, Some Probable)
         | Some best \<Rightarrow>
             (case best_distance imp best of
                Inl e \<Rightarrow> Inl e
              | Inr best_diff \<Rightarrow>
                  if days_diff (date imp) (dict_get (ex_TxnDate ex) []) < best_diff
                  then scan_existing imp tolerance_days rest (Some ex, Some Probable)
                  else scan_existing imp tolerance_days rest (best_match, match_type))))"

record match_entry =
  imported :: txn
  existing :: "qb_txn option"
  match_type :: match_kind

record match_result =
  matched :: "match_entry list"
  probable :: "match_entry list"
  unmatched :: "txn list"

text \<open>
  The end of the outer loop's body: the statement transaction is appended to one of the
  three lists, by the value of \<^verbatim>\<open>match_type\<close>.
\<close>

definition add_outcome ::
  "txn \<Rightarrow> qb_txn option \<Rightarrow> match_kind option \<Rightarrow> match_result \<Rightarrow> match_result" where
  "add_outcome imp best_match mt acc =
     (case mt of
        Some Exact \<Rightarrow>
          acc\<lparr>matched := matched acc
            @ [\<lparr>imported = imp, existing = best_match, match_type = Exact\<rparr>]\<rparr>
      | Some Probable \<Rightarrow>
          acc\<lparr>probable := probable acc
            @ [\<lparr>imported = imp, existing = best_match, match_type = Probable\<rparr>]\<rparr>
      | None \<Rightarrow> acc\<lparr>unmatched := unmatched acc @ [imp]\<rparr>)"

text \<open>The outer loop over the statement transactions.\<close>

fun match_loop ::
  "txn list \<Rightarrow> qb_txn list \<Rightarrow> int \<Rightarrow> match_result \<Rightarrow> py_error + match_result" where
  "match_loop [] existing_txns tolerance_days acc = Inr acc"
| "match_loop (imp # rest) existing_txns tolerance_days acc =
     (case scan_existing imp tolerance_days existing_txns (None, None) of
        Inl e \<Rightarrow> Inl e
      | Inr (best_match, mt) \<Rightarrow>
          match_loop rest existing_txns tolerance_days (add_outcome imp best_match mt acc))"

definition empty_result :: match_result where
  "empty_result = \<lparr>matched = [], probable = [], unmatched = []\<rparr>"

definition match_transactions ::
  "txn list \<Rightarrow> qb_txn list \<Rightarrow> int \<Rightarrow> py_error + match_result" where
  "match_transactions imported_txns existing_txns tolerance_days =
     match_loop imported_txns existing_txns tolerance_days empty_result"

text \<open>
  Derived notions used to state properties of the matcher. A ledger record is a
  \<open>candidate\<close> for a statement transaction when it passes the amount check and the
  date check; it is an \<open>exact_candidate\<close> when in addition the distance is zero and an
  identifier agrees.
\<close>

definition date_distance :: "txn \<Rightarrow> qb_txn \<Rightarrow> int" where
  "date_distance imp ex = days_diff (date imp) (dict_get (ex_TxnDate ex) [])"

definition candidate :: "txn \<Rightarrow> int \<Rightarrow> qb_txn \<Rightarrow> bool" where
  "candidate imp tol ex = (\<not> amount_differs imp ex \<and> date_distance imp ex \<le> tol)"

definition exact_candidate :: "txn \<Rightarrow> int \<Rightarrow> qb_txn \<Rightarrow> bool" where
  "exact_candidate imp tol ex =
     (candidate imp tol ex \<and> date_distance imp ex = 0 \<and> id_match imp ex)"

text \<open>
  The earliest record, in list order, among those of the smallest date distance.
\<close>

definition closest :: "txn \<Rightarrow> qb_txn list \<Rightarrow> qb_txn option" where
  "closest imp cs =
     find (\<lambda>c. date_distance imp c = Min (set (map (date_distance imp) cs))) cs"

text \<open>
  The outcome the specification describes for one statement transaction: the first exact
  candidate if there is one, otherwise the closest candidate, otherwise nothing.
\<close>

definition spec_outcome ::
  "txn \<Rightarrow> int \<Rightarrow> qb_txn list \<Rightarrow> qb_txn option \<times> match_kind option" where
  "spec_outcome imp tol exs =
     (case find (exact_candidate imp tol) exs of
        Some e \<Rightarrow> (Some e, Some Exact)
      | None \<Rightarrow>
          (case filter (candidate imp tol) exs of
             [] \<Rightarrow> (None, None)
           | c # cs \<Rightarrow> (closest imp (c # cs), Some Probable)))"

text \<open>\<^verbatim>\<open>m["existing"].get("Id")\<close> for the entries of a result, in order.\<close>

definition entry_id :: "match_entry \<Rightarrow> string option" where
  "entry_id m = (case existing m of None \<Rightarrow> None | Some ex \<Rightarrow> ex_Id ex)"

definition claimed_ids :: "match_result \<Rightarrow> string option list" where
  "claimed_ids r = map entry_id (matched r @ probable r)"

definition merge_results :: "match_result \<Rightarrow> match_result \<Rightarrow> match_result" where
  "merge_results r1 r2 =
     \<lparr>matched = matched r1 @ matched r2,
      probable = probable r1 @ probable r2,
      unmatched = unmatched r1 @ unmatched r2\<rparr>"

section \<open>The ledger client\<close>

text \<open>
  The authenticated HTTP client is outside the commands; they use its three methods.
  It is a parameter of the model: each method maps the state of the remote ledger and the
  request to a result and a new state. A result \<open>Inl msg\<close> is a raised \<^verbatim>\<open>Exception\<close>
  whose \<^verbatim>\<open>str\<close> is \<open>msg\<close> (every exception of the client derives from
  \<^verbatim>\<open>Exception\<close>).

  A query response is the value under \<^verbatim>\<open>"QueryResponse"\<close> (\<open>None\<close> when the key is
  absent): a dict from entity names to lists of documents.
\<close>

type_synonym query_response = "(string \<times> qb_txn list) list option"

record account_doc =
  acct_Name :: "string option"
  acct_CurrentBalance :: "rat option"

record purchase_body =
  pb_AccountRef :: string
  pb_PaymentType :: string
  pb_TxnDate :: string
  pb_Line_Amount :: rat
  pb_Line_DetailType :: string
  pb_Line_AccountRef :: string
  pb_PrivateNote :: string
  pb_DocNumber :: "string option"

record deposit_body =
  db_DepositToAccountRef :: string
  db_TxnDate :: string
  db_Line_Amount :: rat
  db_Line_DetailType :: string
  db_Line_AccountRef :: string
  db_PrivateNote :: string

datatype post_body = Purchase_body purchase_body | Deposit_body deposit_body

record post_response =
  resp_Purchase :: "qb_txn option"
  resp_Deposit :: "qb_txn option"

record 's client =
  cl_get :: "'s \<Rightarrow> string \<Rightarrow> (string + account_doc option) \<times> 's"
  cl_query :: "'s \<Rightarrow> string \<Rightarrow> int \<Rightarrow> (string + query_response) \<times> 's"
  cl_post :: "'s \<Rightarrow> string \<Rightarrow> post_body \<Rightarrow> (string + post_response) \<times> 's"

text \<open>\<^verbatim>\<open>resp.get("QueryResponse", {}).get(entity, [])\<close>\<close>

definition response_items :: "query_response \<Rightarrow> string \<Rightarrow> qb_txn list" where
  "response_items resp entity = dict_get (map_of (dict_get resp []) entity) []"

text \<open>
  A client that records every query it is asked, with its \<^verbatim>\<open>max_results\<close>, and
  otherwise behaves as the given one.
\<close>

definition recording :: "'s client \<Rightarrow> ('s \<times> (string \<times> int) list) client" where
  "recording c =
     \<lparr>cl_get = (\<lambda>(s, queries) path.
        (case cl_get c s path of (r, s') \<Rightarrow> (r, (s', queries)))),
      cl_query = (\<lambda>(s, queries) sql max_results.
        (case cl_query c s sql max_results of
           (r, s') \<Rightarrow> (r, (s', queries @ [(sql, max_results)])))),
      cl_post = (\<lambda>(s, queries) path body.
        (case cl_post c s path body of (r, s') \<Rightarrow> (r, (s', queries))))\<rparr>"

section \<open>The import command: \<^verbatim>\<open>bank\<close>\<close>

definition quote :: char where
  "quote = CHR 0x27"

text \<open>\<^verbatim>\<open>value.replace("'", "''")\<close>\<close>

definition escape_query_value :: "string \<Rightarrow> string" where
  "escape_query_value v = concat (map (\<lambda>c. if c = quote then [quote, quote] else [c]) v)"

text \<open>\<^verbatim>\<open>min\<close> and \<^verbatim>\<open>max\<close> of a list of strings; on the empty list they raise.\<close>

fun py_min :: "string list \<Rightarrow> py_error + string" where
  "py_min [] = Inl (ValueError ''min() arg is an empty sequence'')"
| "py_min (x # xs) = Inr (fold min xs x)"

fun py_max :: "string list \<Rightarrow> py_error + string" where
  "py_max [] = Inl (ValueError ''max() arg is an empty sequence'')"
| "py_max (x # xs) = Inr (fold max xs x)"

text \<open>\<^verbatim>\<open>[t["date"][:10] for t in txns if t["date"]]\<close>\<close>

definition statement_dates :: "txn list \<Rightarrow> string list" where
  "statement_dates txns = map (\<lambda>t. take 10 (date t)) (filter (\<lambda>t. date t \<noteq> []) txns)"

text \<open>
  The \<^verbatim>\<open>try\<close> block that widens the window. The date arithmetic and formatting of the
  standard library, \<^verbatim>\<open>(d + timedelta(days=n)).strftime("%Y-%m-%d")\<close>, is the parameter
  \<open>shift_date\<close>: it gets the ordinal of \<open>d\<close> and the signed number of days. A
  \<^verbatim>\<open>ValueError\<close> is caught and leaves the raw strings; any other exception leaves the
  command.
\<close>

definition expand_window ::
  "(int \<Rightarrow> int \<Rightarrow> py_error + string) \<Rightarrow> string \<Rightarrow> string \<Rightarrow> int
     \<Rightarrow> py_error + string \<times> string" where
  "expand_window shift_date min_date max_date tolerance =
     (case strptime min_date of
        None \<Rightarrow> Inl (ValueError ''time data does not match format'')
      | Some d_min \<Rightarrow>
          (case shift_date d_min (- tolerance) of
             Inl e \<Rightarrow> Inl e
           | Inr start_date \<Rightarrow>
               (case strptime max_date of
                  None \<Rightarrow> Inl (ValueError ''time data does not match format'')
                | Some d_max \<Rightarrow>
                    (case shift_date d_max tolerance of
                       Inl e \<Rightarrow> Inl e
                     | Inr end_date \<Rightarrow> Inr (start_date, end_date)))))"

definition date_window ::
  "(int \<Rightarrow> int \<Rightarrow> py_error + string) \<Rightarrow> txn list \<Rightarrow> int \<Rightarrow> py_error + string \<times> string" where
  "date_window shift_date txns tolerance =
     (case py_min (statement_dates txns) of
        Inl e \<Rightarrow> Inl e
      | Inr min_date \<Rightarrow>
          (case py_max (statement_dates txns) of
             Inl e \<Rightarrow> Inl e
           | Inr max_date \<Rightarrow>
               (case expand_window shift_date min_date max_date tolerance of
                  Inl (ValueError msg) \<Rightarrow> Inr (min_date, max_date)
                | Inl e \<Rightarrow> Inl e
                | Inr w \<Rightarrow> Inr w)))"

definition import_sql :: "string \<Rightarrow> string \<Rightarrow> string \<Rightarrow> string" where
  "import_sql entity safe_start safe_end =
     ''SELECT * FROM '' @ entity @ '' WHERE TxnDate >= '' @ [quote] @ safe_start @ [quote]
       @ '' AND TxnDate <= '' @ [quote] @ safe_end @ [quote]"

definition import_entities :: "string list" where
  "import_entities = [''Purchase'', ''Deposit'', ''Transfer'', ''JournalEntry'']"

text \<open>
  The loop over the document types: a query that raises is skipped (\<^verbatim>\<open>except
  Exception: continue\<close>), otherwise its documents of that type are appended.
\<close>

fun fetch_existing ::
  "'s client \<Rightarrow> string list \<Rightarrow> string \<Rightarrow> string \<Rightarrow> 's \<Rightarrow> qb_txn list \<Rightarrow> qb_txn list \<times> 's" where
  "fetch_existing client [] safe_start safe_end s existing_txns = (existing_txns, s)"
| "fetch_existing client (entity # rest) safe_start safe_end s existing_txns =
     (case cl_query client s (import_sql entity safe_start safe_end) 500 of
        (Inl e, s') \<Rightarrow> fetch_existing client rest safe_start safe_end s' existing_txns
      | (Inr resp, s') \<Rightarrow>
          fetch_existing client rest safe_start safe_end s'
            (existing_txns @ response_items resp entity))"

datatype created_entry =
  Created txn string "string option"
  | Create_failed txn string

fun created_txn :: "created_entry \<Rightarrow> txn" where
  "created_txn (Created t entity qb_id) = t"
| "created_txn (Create_failed t msg) = t"

definition purchase_of :: "string \<Rightarrow> txn \<Rightarrow> post_body" where
  "purchase_of account_id t =
     Purchase_body
       \<lparr>pb_AccountRef = account_id,
        pb_PaymentType = ''Cash'',
        pb_TxnDate = take 10 (date t),
        pb_Line_Amount = \<bar>amount t\<bar>,
        pb_Line_DetailType = ''AccountBasedExpenseLineDetail'',
        pb_Line_AccountRef = ''31'',
        pb_PrivateNote = ''Imported: '' @ name t,
        pb_DocNumber = (if check_number t \<noteq> [] then Some (check_number t) else None)\<rparr>"

definition deposit_of :: "string \<Rightarrow> txn \<Rightarrow> post_body" where
  "deposit_of account_id t =
     Deposit_body
       \<lparr>db_DepositToAccountRef = account_id,
        db_TxnDate = take 10 (date t),
        db_Line_Amount = amount t,
        db_Line_DetailType = ''DepositLineDetail'',
        db_Line_AccountRef = ''32'',
        db_PrivateNote = ''Imported: '' @ name t\<rparr>"

definition doc_id :: "qb_txn option \<Rightarrow> string option" where
  "doc_id d = (case d of None \<Rightarrow> None | Some doc \<Rightarrow> ex_Id doc)"

text \<open>
  The creation loop: one \<^verbatim>\<open>try\<close> per unmatched transaction, whose \<^verbatim>\<open>except\<close>
  branch appends the error entry.
\<close>

fun create_unmatched ::
  "'s client \<Rightarrow> string \<Rightarrow> txn list \<Rightarrow> 's \<Rightarrow> created_entry list
     \<Rightarrow> created_entry list \<times> 's" where
  "create_unmatched client account_id [] s created = (created, s)"
| "create_unmatched client account_id (t # rest) s created =
     (if amount t < 0 then
        (case cl_post client s ''purchase'' (purchase_of account_id t) of
           (Inl e, s') \<Rightarrow>
             create_unmatched client account_id rest s' (created @ [Create_failed t e])
         | (Inr resp, s') \<Rightarrow>
             create_unmatched client account_id rest s'
               (created @ [Created t ''Purchase'' (doc_id (resp_Purchase resp))]))
      else
        (case cl_post client s ''deposit'' (deposit_of account_id t) of
           (Inl e, s') \<Rightarrow>
             create_unmatched client account_id rest s' (created @ [Create_failed t e])
         | (Inr resp, s') \<Rightarrow>
             create_unmatched client account_id rest s'
               (created @ [Created t ''Deposit'' (doc_id (resp_Deposit resp))])))"

record report_details =
  d_matched :: "(txn \<times> string option) list"
  d_probable :: "(txn \<times> string option) list"
  d_unmatched :: "txn list"
  d_created :: "created_entry list"

record import_report =
  rp_file :: string
  rp_format :: string
  rp_total_imported :: nat
  rp_matched :: nat
  rp_probable_matches :: nat
  rp_unmatched :: nat
  rp_created :: nat
  rp_dry_run :: bool
  rp_details :: report_details

datatype bank_output = Empty_file | Report import_report

text \<open>
  \<^verbatim>\<open>[{"imported": m["imported"], "qb_id": m["existing"].get("Id")} for m in ...]\<close>;
  \<^verbatim>\<open>None.get\<close> raises \<^verbatim>\<open>AttributeError\<close>.
\<close>

fun detail_rows :: "match_entry list \<Rightarrow> py_error + (txn \<times> string option) list" where
  "detail_rows [] = Inr []"
| "detail_rows (m # ms) =
     (case existing m of
        None \<Rightarrow> Inl (AttributeError ''NoneType object has no attribute get'')
      | Some ex \<Rightarrow>
          (case detail_rows ms of
             Inl e \<Rightarrow> Inl e
           | Inr rows \<Rightarrow> Inr ((imported m, ex_Id ex) # rows)))"

definition build_report ::
  "string \<Rightarrow> string \<Rightarrow> txn list \<Rightarrow> match_result \<Rightarrow> created_entry list \<Rightarrow> bool
     \<Rightarrow> py_error + import_report" where
  "build_report file_path detected txns result created dry_run =
     (case detail_rows (matched result) of
        Inl e \<Rightarrow> Inl e
      | Inr m_rows \<Rightarrow>
          (case detail_rows (probable result) of
             Inl e \<Rightarrow> Inl e
           | Inr p_rows \<Rightarrow>
               Inr \<lparr>rp_file = file_path,
                    rp_format = detected,
                    rp_total_imported = length txns,
                    rp_matched = length (matched result),
                    rp_probable_matches = length (probable result),
                    rp_unmatched = length (unmatched result),
                    rp_created = (if \<not> dry_run then length created else 0),
                    rp_dry_run = dry_run,
                    rp_details =
                      \<lparr>d_matched = m_rows,
                       d_probable = p_rows,
                       d_unmatched = unmatched result,
                       d_created = (if \<not> dry_run then created else [])\<rparr>\<rparr>))"

text \<open>
  The command, from the parsed statement on (\<open>txns\<close> is what the parser returned and
  \<open>detected\<close> the format it chose).
\<close>

definition bank ::
  "'s client \<Rightarrow> (int \<Rightarrow> int \<Rightarrow> py_error + string) \<Rightarrow> string \<Rightarrow> string \<Rightarrow> string
     \<Rightarrow> txn list \<Rightarrow> bool \<Rightarrow> int \<Rightarrow> 's \<Rightarrow> (py_error + bank_output) \<times> 's" where
  "bank client shift_date file_path account_id detected txns dry_run tolerance s =
     (if txns = [] then (Inr Empty_file, s)
      else
        (case date_window shift_date txns tolerance of
           Inl e \<Rightarrow> (Inl e, s)
         | Inr (start_date, end_date) \<Rightarrow>
             (case fetch_existing client import_entities (escape_query_value start_date)
                     (escape_query_value end_date) s [] of
                (existing_txns, s1) \<Rightarrow>
                  (case match_transactions txns existing_txns tolerance of
                     Inl e \<Rightarrow> (Inl e, s1)
                   | Inr result \<Rightarrow>
                       (case (if \<not> dry_run
                              then create_unmatched client account_id (unmatched result) s1 []
                              else ([], s1)) of
                          (created, s2) \<Rightarrow>
                            (case build_report file_path detected txns result created dry_run of
                               Inl e \<Rightarrow> (Inl e, s2)
                             | Inr rp \<Rightarrow> (Inr (Report rp), s2)))))))"

section \<open>The reconciliation commands: \<^verbatim>\<open>start\<close>, \<^verbatim>\<open>status\<close>, \<^verbatim>\<open>match\<close>\<close>

record session =
  s_account_id :: string
  s_account_name :: string
  s_statement_date :: string
  s_statement_balance :: rat
  s_qb_balance :: rat
  s_difference :: rat
  s_status :: string
  s_transaction_count :: nat
  s_started_at :: string

text \<open>
  The world the commands run in: the session files of the workspace directory, as pairs
  of a file name and the session stored in the file, and the state of the remote ledger.
\<close>

record 's world =
  workspace :: "(string \<times> session) list"
  ledger :: 's


record uncleared_item =
  u_type :: string
  u_id :: "string option"
  u_date :: "string option"
  u_amount :: rat
  u_doc_number :: string
  u_memo :: string
  u_ref :: string

definition uncleared_of :: "string \<Rightarrow> qb_txn \<Rightarrow> uncleared_item" where
  "uncleared_of entity item =
     \<lparr>u_type = entity,
      u_id = ex_Id item,
      u_date = ex_TxnDate item,
      u_amount = ex_amt item,
      u_doc_number = dict_get (ex_DocNumber item) [],
      u_memo = dict_get (ex_PrivateNote item) [],
      u_ref = dict_get (ex_PaymentRefNum item) (dict_get (ex_DocNumber item) [])\<rparr>"

definition start_sql :: "string \<Rightarrow> string \<Rightarrow> string" where
  "start_sql entity statement_date =
     ''SELECT * FROM '' @ entity @ '' WHERE TxnDate <= '' @ [quote] @ statement_date @ [quote]"


fun fetch_uncleared ::
  "'s client \<Rightarrow> string list \<Rightarrow> string \<Rightarrow> 's \<Rightarrow> uncleared_item list
     \<Rightarrow> uncleared_item list \<times> 's" where
  "fetch_uncleared client [] statement_date s uncleared = (uncleared, s)"
| "fetch_uncleared client (entity # rest) statement_date s uncleared =
     (case cl_query client s (start_sql entity statement_date) 1000 of
        (Inl e, s') \<Rightarrow> fetch_uncleared client rest statement_date s' uncleared
      | (Inr resp, s') \<Rightarrow>
          fetch_uncleared client rest statement_date s'
            (uncleared @ map (uncleared_of entity) (response_items resp entity)))"












definition match_sql :: "string \<Rightarrow> string \<Rightarrow> string \<Rightarrow> string" where
  "match_sql entity min_date max_date =
     ''SELECT * FROM '' @ entity @ '' WHERE TxnDate >= '' @ [quote] @ min_date @ [quote]
       @ '' AND TxnDate <= '' @ [quote] @ max_date @ [quote]"

definition match_entities :: "string list" where
  "match_entities =
     [''Purchase'', ''Deposit'', ''Transfer'', ''Payment'', ''SalesReceipt'', ''JournalEntry'']"

fun fetch_qb_txns ::
  "'s client \<Rightarrow> string list \<Rightarrow> string \<Rightarrow> string \<Rightarrow> 's \<Rightarrow> qb_txn list \<Rightarrow> qb_txn list \<times> 's" where
  "fetch_qb_txns client [] min_date max_date s qb_txns = (qb_txns, s)"
| "fetch_qb_txns client (entity # rest) min_date max_date s qb_txns =
     (case cl_query client s (match_sql entity min_date max_date) 500 of
        (Inl e, s') \<Rightarrow> fetch_qb_txns client rest min_date max_date s' qb_txns
      | (Inr resp, s') \<Rightarrow>
          fetch_qb_txns client rest min_date max_date s'
            (qb_txns
               @ map (\<lambda>item. item\<lparr>ex_entity_type := Some entity\<rparr>) (response_items resp entity)))"

fun entry_ids :: "match_entry list \<Rightarrow> py_error + string option list" where
  "entry_ids [] = Inr []"
| "entry_ids (m # ms) =
     (case existing m of
        None \<Rightarrow> Inl (AttributeError ''NoneType object has no attribute get'')
      | Some ex \<Rightarrow>
          (case entry_ids ms of
             Inl e \<Rightarrow> Inl e
           | Inr ids \<Rightarrow> Inr (ex_Id ex # ids)))"

record outstanding_item =
  o_type :: "string option"
  o_id :: "string option"
  o_date :: "string option"
  o_amount :: rat
  o_doc_number :: string

definition outstanding_of :: "qb_txn \<Rightarrow> outstanding_item" where
  "outstanding_of t =
     \<lparr>o_type = ex_entity_type t,
      o_id = ex_Id t,
      o_date = ex_TxnDate t,
      o_amount = ex_amt t,
      o_doc_number = dict_get (ex_DocNumber t) []\<rparr>"

record match_row =
  mr_stmt :: txn
  mr_qb_id :: "string option"
  mr_qb_type :: "string option"

fun match_rows :: "match_entry list \<Rightarrow> py_error + match_row list" where
  "match_rows [] = Inr []"
| "match_rows (m # ms) =
     (case existing m of
        None \<Rightarrow> Inl (AttributeError ''NoneType object has no attribute get'')
      | Some ex \<Rightarrow>
          (case match_rows ms of
             Inl e \<Rightarrow> Inl e
           | Inr rows \<Rightarrow>
               Inr (\<lparr>mr_stmt = imported m, mr_qb_id = ex_Id ex,
                     mr_qb_type = ex_entity_type ex\<rparr> # rows)))"

record match_report =
  mp_statement_file :: string
  mp_statement_transactions :: nat
  mp_qb_transactions :: nat
  mp_matched :: nat
  mp_probable_matches :: nat
  mp_unmatched_on_statement :: nat
  mp_outstanding_in_qb :: nat
  mp_d_matched :: "match_row list"
  mp_d_probable :: "match_row list"
  mp_d_unmatched_on_statement :: "txn list"
  mp_d_outstanding_in_qb :: "outstanding_item list"

datatype match_output = Empty_statement | Match_report match_report

text \<open>
  \<^verbatim>\<open>match\<close>, from the parsed statement on. It neither reads nor writes the workspace.
\<close>

definition reconcile_match ::
  "'s client \<Rightarrow> string \<Rightarrow> string \<Rightarrow> txn list \<Rightarrow> int \<Rightarrow> 's world
     \<Rightarrow> (py_error + match_output) \<times> 's world" where
  "reconcile_match client account_id statement_file stmt_txns tolerance w =
     (if stmt_txns = [] then (Inr Empty_statement, w)
      else
        (case py_min (statement_dates stmt_txns) of
           Inl e \<Rightarrow> (Inl e, w)
         | Inr min_date \<Rightarrow>
             (case py_max (statement_dates stmt_txns) of
                Inl e \<Rightarrow> (Inl e, w)
              | Inr max_date \<Rightarrow>
                  (case fetch_qb_txns client match_entities min_date max_date (ledger w) [] of
                     (qb_txns, s1) \<Rightarrow>
                       (case match_transactions stmt_txns qb_txns tolerance of
                          Inl e \<Rightarrow> (Inl e, w\<lparr>ledger := s1\<rparr>)
                        | Inr result \<Rightarrow>
                            (case entry_ids (matched result @ probable result) of
                               Inl e \<Rightarrow> (Inl e, w\<lparr>ledger := s1\<rparr>)
                             | Inr matched_qb_ids \<Rightarrow>
                                 (let outstanding_in_qb =
                                        map outstanding_of
                                          (filter (\<lambda>t. ex_Id t \<notin> set matched_qb_ids) qb_txns)
                                  in (case match_rows (matched result) of
                                        Inl e \<Rightarrow> (Inl e, w\<lparr>ledger := s1\<rparr>)
                                      | Inr m_rows \<Rightarrow>
                                          (case match_rows (probable result) of
                                             Inl e \<Rightarrow> (Inl e, w\<lparr>ledger := s1\<rparr>)
                                           | Inr p_rows \<Rightarrow>
                                               (Inr (Match_report
                                                  \<lparr>mp_statement_file = statement_file,
                                                   mp_statement_transactions = length stmt_txns,
                                                   mp_qb_transactions = length qb_txns,
                                                   mp_matched = length (matched result),
                                                   mp_probable_matches = length (probable result),
                                                   mp_unmatched_on_statement =
                                                     length (unmatched result),
                                                   mp_outstanding_in_qb = length outstanding_in_qb,
                                                   mp_d_matched = m_rows,
                                                   mp_d_probable = p_rows,
                                                   mp_d_unmatched_on_statement = unmatched result,
                                                   mp_d_outstanding_in_qb = outstanding_in_qb\<rparr>),
                                                w\<lparr>ledger := s1\<rparr>))))))))))"

section \<open>Reference notions for the creation step\<close>

text \<open>
  The request that the creation step sends for an unmatched transaction, the results of
  sending these requests one after the other, and the entry that belongs to a
  transaction and the result of its request.
\<close>

definition create_request :: "string \<Rightarrow> txn \<Rightarrow> string \<times> post_body" where
  "create_request account_id t =
     (if amount t < 0 then (''purchase'', purchase_of account_id t)
      else (''deposit'', deposit_of account_id t))"

fun post_results ::
  "'s client \<Rightarrow> string \<Rightarrow> txn list \<Rightarrow> 's \<Rightarrow> (string + post_response) list" where
  "post_results client account_id [] s = []"
| "post_results client account_id (t # ts) s =
     (case cl_post client s (fst (create_request account_id t))
             (snd (create_request account_id t)) of
        (r, s') \<Rightarrow> r # post_results client account_id ts s')"

definition entry_for :: "txn \<Rightarrow> string + post_response \<Rightarrow> created_entry" where
  "entry_for t r =
     (case r of
        Inl msg \<Rightarrow> Create_failed t msg
      | Inr resp \<Rightarrow>
          if amount t < 0 then Created t ''Purchase'' (doc_id (resp_Purchase resp))
          else Created t ''Deposit'' (doc_id (resp_Deposit resp)))"

section \<open>Example data\<close>

text \<open>
  A statement transaction with the given date, amount, FITID and check number, and a
  ledger document with the given id, date, total amount and document number.
\<close>

definition stmt :: "string \<Rightarrow> rat \<Rightarrow> string \<Rightarrow> string \<Rightarrow> txn" where
  "stmt d a f c =
     \<lparr>date = d, amount = a, fitid = f, name = [], memo = [], txn_type = [], check_number = c\<rparr>"

definition doc :: "string \<Rightarrow> string option \<Rightarrow> rat \<Rightarrow> string option \<Rightarrow> qb_txn" where
  "doc i d a n =
     \<lparr>ex_Id = Some i, ex_TotalAmt = Some a, ex_Amount = None, ex_TxnDate = d,
      ex_DocNumber = n, ex_fitid = None, ex_entity_type = None, ex_PrivateNote = None,
      ex_PaymentRefNum = None\<rparr>"

text \<open>
  A ledger whose state counts the requests it has served. Its first query is refused and
  every later one returns one deposit; it refuses every purchase and accepts every
  deposit; the account it knows has a balance of 999.99.
\<close>

definition example_client :: "nat client" where
  "example_client =
     \<lparr>cl_get = (\<lambda>s path.
        (Inr (Some \<lparr>acct_Name = Some ''Checking'', acct_CurrentBalance = Some (99999 / 100)\<rparr>),
         Suc s)),
      cl_query = (\<lambda>s sql max_results.
        (if s = 0 then Inl ''[403] Forbidden''
         else Inr (Some [(''Deposit'', [doc ''12'' (Some ''2026-03-01'') 100 None])]),
         Suc s)),
      cl_post = (\<lambda>s path body.
        (if path = ''purchase'' then Inl ''[400] Bad request''
         else Inr \<lparr>resp_Purchase = None, resp_Deposit = Some (doc ''77'' None 0 None)\<rparr>,
         Suc s))\<rparr>"

text \<open>A date shift that never fails (it returns a fixed string).\<close>

definition example_shift :: "int \<Rightarrow> int \<Rightarrow> py_error + string" where
  "example_shift d n = Inr ''2026-03-01''"



section \<open>Properties of the matcher\<close>

subsection \<open>The inner loop, step by step\<close>

lemma scan_skip:
  "\<not> candidate imp tol e \<Longrightarrow> scan_existing imp tol (e # rest) st = scan_existing imp tol rest st"
  by (cases st) (auto simp: candidate_def date_distance_def)

lemma scan_exact:
  "exact_candidate imp tol e \<Longrightarrow> scan_existing imp tol (e # rest) st = Inr (Some e, Some Exact)"
  by (cases st) (auto simp: candidate_def exact_candidate_def date_distance_def)

lemma scan_first:
  "candidate imp tol e \<Longrightarrow> \<not> exact_candidate imp tol e \<Longrightarrow>
     scan_existing imp tol (e # rest) (None, mt) = scan_existing imp tol rest (Some e, Some Probable)"
  by (auto simp: candidate_def exact_candidate_def date_distance_def)

lemma scan_next:
  "candidate imp tol e \<Longrightarrow> \<not> exact_candidate imp tol e \<Longrightarrow>
     scan_existing imp tol (e # rest) (Some b, mt) =
       (case best_distance imp b of
          Inl err \<Rightarrow> Inl err
        | Inr best_diff \<Rightarrow>
            if date_distance imp e < best_diff
            then scan_existing imp tol rest (Some e, Some Probable)
            else scan_existing imp tol rest (Some b, mt))"
  by (auto simp: candidate_def exact_candidate_def date_distance_def split: sum.splits)

declare scan_existing.simps(2) [simp del]

lemma scan_cases:
  obtains (skip) "\<not> candidate imp tol e"
    | (exact) "exact_candidate imp tol e"
    | (prob) "candidate imp tol e" "\<not> exact_candidate imp tol e"
  by (auto simp: exact_candidate_def)

lemma scan_sound:
  "scan_existing imp tol exs (b, mt) = Inr (Some ex, Some k) \<Longrightarrow>
     (b, mt) = (Some ex, Some k) \<or>
     (ex \<in> set exs \<and> candidate imp tol ex \<and> (k = Exact \<longrightarrow> exact_candidate imp tol ex))"
proof (induction exs arbitrary: b mt)
  case Nil
  then show ?case by simp
next
  case (Cons e rest)
  show ?case
  proof (cases imp tol e rule: scan_cases)
    case skip
    with Cons show ?thesis by (auto simp: scan_skip)
  next
    case exact
    with Cons.prems show ?thesis by (auto simp: scan_exact exact_candidate_def)
  next
    case prob
    show ?thesis
    proof (cases b)
      case None
      with prob Cons.prems
      have "scan_existing imp tol rest (Some e, Some Probable) = Inr (Some ex, Some k)"
        by (simp add: scan_first)
      from Cons.IH [OF this] prob show ?thesis by auto
    next
      case (Some best)
      with prob Cons.prems show ?thesis
        by (auto simp: scan_next split: sum.splits if_splits dest!: Cons.IH)
    qed
  qed
qed

lemma scan_wf:
  "scan_existing imp tol exs (b, mt) = Inr (b', mt') \<Longrightarrow> (b = None) = (mt = None) \<Longrightarrow>
     (b' = None) = (mt' = None)"
proof (induction exs arbitrary: b mt)
  case Nil
  then show ?case by simp
next
  case (Cons e rest)
  show ?case
  proof (cases imp tol e rule: scan_cases)
    case skip
    with Cons show ?thesis by (simp add: scan_skip)
  next
    case exact
    with Cons.prems show ?thesis by (auto simp: scan_exact)
  next
    case prob
    show ?thesis
    proof (cases b)
      case None
      with prob Cons.prems Cons.IH [of "Some e" "Some Probable"] show ?thesis
        by (simp add: scan_first)
    next
      case (Some best)
      with prob Cons.prems Cons.IH [of "Some e" "Some Probable"] Cons.IH [of "Some best" mt]
      show ?thesis
        by (auto simp: scan_next split: sum.splits if_splits)
    qed
  qed
qed

lemma candidate_best_distance:
  assumes "tol < 999" "candidate imp tol e"
  shows "best_distance imp e = Inr (date_distance imp e)"
proof -
  from assms have lt: "days_diff (date imp) (dict_get (ex_TxnDate e) []) < 999"
    by (simp add: candidate_def date_distance_def)
  then obtain a where a: "strptime (take 10 (date imp)) = Some a"
    by (auto simp: days_diff_def split: option.splits)
  with lt obtain c where c: "strptime (take 10 (dict_get (ex_TxnDate e) [])) = Some c"
    by (auto simp: days_diff_def split: option.splits)
  then obtain s where s: "ex_TxnDate e = Some s"
    by (cases "ex_TxnDate e") (auto simp: dict_get_def)
  with a c show ?thesis
    by (simp add: best_distance_def days_diff_def dict_get_def date_distance_def)
qed

lemma closest_single: "closest imp [b] = Some b"
  by (simp add: closest_def)

lemma closest_step:
  "closest imp (b # e # cs) =
     closest imp ((if date_distance imp e < date_distance imp b then e else b) # cs)"
proof -
  define f where "f = date_distance imp"
  define M where "M = Min (set (map f (b # e # cs)))"
  have Mb: "M \<le> f b" and Me: "M \<le> f e"
    unfolding M_def by (intro Min_le; simp)+
  have unfold: "closest imp (b # e # cs) = find (\<lambda>c. f c = M) (b # e # cs)"
    by (simp add: closest_def M_def f_def)
  show ?thesis
  proof (cases "f e < f b")
    case True
    then have m: "Min (set (map f (e # cs))) = M"
      unfolding M_def by (cases "cs = []") (auto simp: min_def)
    from True Me have "f b \<noteq> M" by linarith
    then have "find (\<lambda>c. f c = M) (b # e # cs) = find (\<lambda>c. f c = M) (e # cs)"
      by simp
    also have "\<dots> = closest imp (e # cs)"
      using m by (simp add: closest_def f_def)
    finally show ?thesis using True unfold by (simp add: f_def)
  next
    case False
    then have m: "Min (set (map f (b # cs))) = M"
      unfolding M_def by (cases "cs = []") (auto simp: min_def)
    have "find (\<lambda>c. f c = M) (b # e # cs) = find (\<lambda>c. f c = M) (b # cs)"
    proof (cases "f b = M")
      case True
      then show ?thesis by simp
    next
      case ne: False
      with Mb False have "f e \<noteq> M" by linarith
      with ne show ?thesis by simp
    qed
    also have "\<dots> = closest imp (b # cs)"
      using m by (simp add: closest_def f_def)
    finally show ?thesis using False unfold by (simp add: f_def)
  qed
qed

lemma scan_from_best:
  assumes "tol < 999"
  shows "candidate imp tol b \<Longrightarrow>
     scan_existing imp tol exs (Some b, Some Probable) =
       Inr (case find (exact_candidate imp tol) exs of
              Some e \<Rightarrow> (Some e, Some Exact)
            | None \<Rightarrow> (closest imp (b # filter (candidate imp tol) exs), Some Probable))"
proof (induction exs arbitrary: b)
  case Nil
  then show ?case by (simp add: closest_single)
next
  case (Cons e rest)
  show ?case
  proof (cases imp tol e rule: scan_cases)
    case skip
    then have "\<not> exact_candidate imp tol e" by (simp add: exact_candidate_def)
    with skip Cons show ?thesis by (simp add: scan_skip split: option.splits)
  next
    case exact
    then show ?thesis by (simp add: scan_exact)
  next
    case prob
    from assms Cons.prems have bd: "best_distance imp b = Inr (date_distance imp b)"
      by (rule candidate_best_distance)
    show ?thesis
    proof (cases "date_distance imp e < date_distance imp b")
      case True
      with prob bd Cons.IH [OF prob(1)] show ?thesis
        by (simp add: scan_next closest_step split: option.splits)
    next
      case False
      with prob bd Cons.IH [OF Cons.prems] show ?thesis
        by (simp add: scan_next closest_step split: option.splits)
    qed
  qed
qed

lemma scan_spec:
  assumes "tol < 999"
  shows "scan_existing imp tol exs (None, None) = Inr (spec_outcome imp tol exs)"
proof (induction exs)
  case Nil
  then show ?case by (simp add: spec_outcome_def)
next
  case (Cons e rest)
  show ?case
  proof (cases imp tol e rule: scan_cases)
    case skip
    then have "\<not> exact_candidate imp tol e" by (simp add: exact_candidate_def)
    with skip Cons show ?thesis by (simp add: scan_skip spec_outcome_def split: option.splits)
  next
    case exact
    then show ?thesis by (simp add: scan_exact spec_outcome_def)
  next
    case prob
    with scan_from_best [OF assms prob(1), of rest] show ?thesis
      by (simp add: scan_first spec_outcome_def split: option.splits)
  qed
qed

subsection \<open>The closest candidate\<close>



subsection \<open>The outer loop\<close>

lemma merge_empty [simp]: "merge_results acc empty_result = acc"
  by (simp add: merge_results_def empty_result_def)

lemma merge_add_outcome:
  "merge_results acc (add_outcome imp b mt r) = add_outcome imp b mt (merge_results acc r)"
  by (simp add: merge_results_def add_outcome_def split: option.splits match_kind.splits)

lemma match_loop_acc:
  "match_loop xs exs tol (merge_results acc r0) =
     (case match_loop xs exs tol r0 of
        Inl e \<Rightarrow> Inl e
      | Inr r \<Rightarrow> Inr (merge_results acc r))"
proof (induction xs arbitrary: r0)
  case Nil
  then show ?case by simp
next
  case (Cons imp rest)
  show ?case
  proof (cases "scan_existing imp tol exs (None, None)")
    case (Inl e)
    then show ?thesis by simp
  next
    case (Inr st)
    obtain b mt where st: "st = (b, mt)" by (cases st)
    from Cons.IH [of "add_outcome imp b mt r0"] Inr st show ?thesis
      by (simp add: merge_add_outcome)
  qed
qed

lemma match_loop_append:
  "match_loop (xs @ ys) exs tol acc =
     (case match_loop xs exs tol acc of
        Inl e \<Rightarrow> Inl e
      | Inr a \<Rightarrow> match_loop ys exs tol a)"
  by (induction xs arbitrary: acc) (auto split: sum.splits)

lemma match_loop_spec:
  assumes "tol < 999"
  shows "match_loop xs exs tol acc =
     Inr (fold (\<lambda>imp. add_outcome imp (fst (spec_outcome imp tol exs))
                  (snd (spec_outcome imp tol exs))) xs acc)"
  by (induction xs arbitrary: acc) (simp_all add: scan_spec [OF assms] split: prod.splits)

lemma add_outcome_sets:
  "set (matched (add_outcome imp b mt acc)) =
     set (matched acc) \<union> (if mt = Some Exact
       then {\<lparr>imported = imp, existing = b, match_type = Exact\<rparr>} else {})"
  "set (probable (add_outcome imp b mt acc)) =
     set (probable acc) \<union> (if mt = Some Probable
       then {\<lparr>imported = imp, existing = b, match_type = Probable\<rparr>} else {})"
  "set (unmatched (add_outcome imp b mt acc)) =
     set (unmatched acc) \<union> (if mt = None then {imp} else {})"
  by (auto simp: add_outcome_def split: option.splits match_kind.splits)

lemma match_loop_matched:
  "match_loop xs exs tol acc = Inr r \<Longrightarrow> m \<in> set (matched r) \<Longrightarrow>
     m \<in> set (matched acc) \<or>
     (imported m \<in> set xs \<and> match_type m = Exact \<and>
      scan_existing (imported m) tol exs (None, None) = Inr (existing m, Some Exact))"
proof (induction xs arbitrary: acc)
  case Nil
  then show ?case by auto
next
  case (Cons imp rest)
  from Cons.prems(1) obtain b mt where
    sc: "scan_existing imp tol exs (None, None) = Inr (b, mt)" and
    ml: "match_loop rest exs tol (add_outcome imp b mt acc) = Inr r"
    by (auto split: sum.splits)
  from Cons.IH [OF ml Cons.prems(2)] sc show ?case
    by (auto simp: add_outcome_sets split: if_splits)
qed

lemma match_loop_probable:
  "match_loop xs exs tol acc = Inr r \<Longrightarrow> m \<in> set (probable r) \<Longrightarrow>
     m \<in> set (probable acc) \<or>
     (imported m \<in> set xs \<and> match_type m = Probable \<and>
      scan_existing (imported m) tol exs (None, None) = Inr (existing m, Some Probable))"
proof (induction xs arbitrary: acc)
  case Nil
  then show ?case by auto
next
  case (Cons imp rest)
  from Cons.prems(1) obtain b mt where
    sc: "scan_existing imp tol exs (None, None) = Inr (b, mt)" and
    ml: "match_loop rest exs tol (add_outcome imp b mt acc) = Inr r"
    by (auto split: sum.splits)
  from Cons.IH [OF ml Cons.prems(2)] sc show ?case
    by (auto simp: add_outcome_sets split: if_splits)
qed

lemma match_entries:
  assumes "match_transactions imps exs tol = Inr r"
    and "m \<in> set (matched r @ probable r)"
  shows "imported m \<in> set imps"
    and "scan_existing (imported m) tol exs (None, None) = Inr (existing m, Some (match_type m))"
    and "m \<in> set (matched r) \<Longrightarrow> match_type m = Exact"
  using match_loop_matched [of imps exs tol empty_result r m]
    match_loop_probable [of imps exs tol empty_result r m] assms
  by (auto simp: match_transactions_def empty_result_def)

lemma match_entries_existing:
  assumes "match_transactions imps exs tol = Inr r"
    and "m \<in> set (matched r @ probable r)"
  shows "\<exists>ex. existing m = Some ex \<and> ex \<in> set exs \<and> candidate (imported m) tol ex \<and>
           (match_type m = Exact \<longrightarrow> exact_candidate (imported m) tol ex)"
proof -
  from match_entries(2) [OF assms]
  have sc: "scan_existing (imported m) tol exs (None, None) = Inr (existing m, Some (match_type m))" .
  from scan_wf [OF sc] obtain ex where ex: "existing m = Some ex" by auto
  with sc scan_sound [of "imported m" tol exs None None ex "match_type m"] show ?thesis by auto
qed


lemma add_outcome_total:
  "length (matched (add_outcome imp b mt acc)) + length (probable (add_outcome imp b mt acc))
     + length (unmatched (add_outcome imp b mt acc)) =
   Suc (length (matched acc) + length (probable acc) + length (unmatched acc))"
  by (simp add: add_outcome_def split: option.splits match_kind.splits)

lemma match_loop_total:
  "match_loop xs exs tol acc = Inr r \<Longrightarrow>
     length (matched r) + length (probable r) + length (unmatched r) =
     length (matched acc) + length (probable acc) + length (unmatched acc) + length xs"
proof (induction xs arbitrary: acc)
  case Nil
  then show ?case by auto
next
  case (Cons imp rest)
  from Cons.prems obtain b mt where
    ml: "match_loop rest exs tol (add_outcome imp b mt acc) = Inr r"
    by (auto split: sum.splits)
  from Cons.IH [OF ml] show ?case by (simp add: add_outcome_total)
qed

lemma fold_outcome_mono:
  "set (matched acc) \<subseteq> set (matched (fold (\<lambda>imp. add_outcome imp (f imp) (g imp)) xs acc))"
  "set (probable acc) \<subseteq> set (probable (fold (\<lambda>imp. add_outcome imp (f imp) (g imp)) xs acc))"
proof (induction xs arbitrary: acc)
  case Nil
  { case 1 show ?case by simp }
  { case 2 show ?case by simp }
next
  case (Cons x xs)
  { case 1
    have "set (matched acc) \<subseteq> set (matched (add_outcome x (f x) (g x) acc))"
      by (auto simp: add_outcome_sets)
    with Cons.IH(1) [of "add_outcome x (f x) (g x) acc"] show ?case by auto }
  { case 2
    have "set (probable acc) \<subseteq> set (probable (add_outcome x (f x) (g x) acc))"
      by (auto simp: add_outcome_sets)
    with Cons.IH(2) [of "add_outcome x (f x) (g x) acc"] show ?case by auto }
qed


lemma fold_outcome_matched:
  "imp \<in> set xs \<Longrightarrow> g imp = Some Exact \<Longrightarrow>
     \<lparr>imported = imp, existing = f imp, match_type = Exact\<rparr>
       \<in> set (matched (fold (\<lambda>imp. add_outcome imp (f imp) (g imp)) xs acc))"
proof (induction xs arbitrary: acc)
  case Nil
  then show ?case by simp
next
  case (Cons x xs)
  show ?case
  proof (cases "imp = x")
    case True
    with Cons.prems have
      "\<lparr>imported = imp, existing = f imp, match_type = Exact\<rparr>
         \<in> set (matched (add_outcome x (f x) (g x) acc))"
      by (simp add: add_outcome_sets)
    with fold_outcome_mono(1) [of "add_outcome x (f x) (g x) acc" f g xs] show ?thesis
      by auto
  next
    case False
    with Cons show ?thesis by simp
  qed
qed

lemma exact_precedence_bounded_tolerance:
  assumes "tol < 999" "imp \<in> set imps" "find (exact_candidate imp tol) exs = Some e"
  shows "\<exists>r. match_transactions imps exs tol = Inr r \<and>
           \<lparr>imported = imp, existing = Some e, match_type = Exact\<rparr> \<in> set (matched r)"
proof -
  from assms(3) have "spec_outcome imp tol exs = (Some e, Some Exact)"
    by (simp add: spec_outcome_def)
  with fold_outcome_matched [of imp imps "\<lambda>i. snd (spec_outcome i tol exs)"
      "\<lambda>i. fst (spec_outcome i tol exs)" empty_result] assms(2)
  show ?thesis
    by (simp add: match_transactions_def match_loop_spec [OF assms(1)])
qed




subsection \<open>Evaluation on concrete inputs\<close>

lemmas date_eval = digit_def digit19_def digit_val_def days_in_month_def is_leap_def
  ymd2ord_def days_before_year_def days_before_month_def days_diff_def

lemmas match_eval = date_eval match_transactions_def empty_result_def add_outcome_def
  scan_existing.simps(2) amount_differs_def ex_amt_def dict_get_def id_match_def
  best_distance_def stmt_def doc_def

subsection \<open>The earliest of the closest candidates\<close>



section \<open>Claims about the matcher\<close>

text \<open>
  C1, as stated, fails: the matcher keeps no set of claimed ledger records. Two statement
  transactions of the same amount, one day apart, are both reported as probable matches
  of the single ledger document 7.
\<close>

theorem claim_uniqueness_counterexample:
  "map_sum id claimed_ids
     (match_transactions
        [stmt ''2026-03-01'' 100 [] [], stmt ''2026-03-02'' 100 [] []]
        [doc ''7'' (Some ''2026-03-01'') 100 None] 3)
   = Inr [Some ''7'', Some ''7'']"
  by (simp add: match_eval claimed_ids_def entry_id_def)

text \<open>
  C1, amended: the outcome of every statement transaction is computed against the complete
  list of ledger records, independently of the transactions before it, so that matching
  a list is matching its parts and putting the results together (a ledger record chosen
  for one transaction stays available to the next). Only matched and probable outcomes
  carry a ledger record: their number and the number of unmatched transactions add up to
  the number of statement transactions.
\<close>

theorem match_keeps_no_claims:
  "match_transactions (xs @ ys) exs tol =
     (case match_transactions xs exs tol of
        Inl e \<Rightarrow> Inl e
      | Inr r1 \<Rightarrow>
          (case match_transactions ys exs tol of
             Inl e \<Rightarrow> Inl e
           | Inr r2 \<Rightarrow> Inr (merge_results r1 r2)))
   \<and> (match_transactions xs exs tol = Inr r \<longrightarrow>
        length (claimed_ids r) + length (unmatched r) = length xs)"
proof
  show "match_transactions (xs @ ys) exs tol =
     (case match_transactions xs exs tol of
        Inl e \<Rightarrow> Inl e
      | Inr r1 \<Rightarrow>
          (case match_transactions ys exs tol of
             Inl e \<Rightarrow> Inl e
           | Inr r2 \<Rightarrow> Inr (merge_results r1 r2)))"
  proof (cases "match_transactions xs exs tol")
    case (Inl e)
    then show ?thesis by (simp add: match_transactions_def match_loop_append)
  next
    case (Inr r1)
    with match_loop_acc [of ys exs tol r1 empty_result] show ?thesis
      by (simp add: match_transactions_def match_loop_append)
  qed
next
  show "match_transactions xs exs tol = Inr r \<longrightarrow>
        length (claimed_ids r) + length (unmatched r) = length xs"
    using match_loop_total [of xs exs tol empty_result r]
    by (auto simp: match_transactions_def claimed_ids_def empty_result_def)
qed

theorem match_keeps_no_claims_witness:
  "match_transactions ([stmt ''2026-03-01'' 100 [] []] @ [stmt ''2026-03-02'' 100 [] []])
     [doc ''7'' (Some ''2026-03-01'') 100 None] 3
   = Inr \<lparr>matched = [],
          probable =
            [\<lparr>imported = stmt ''2026-03-01'' 100 [] [],
              existing = Some (doc ''7'' (Some ''2026-03-01'') 100 None), match_type = Probable\<rparr>,
             \<lparr>imported = stmt ''2026-03-02'' 100 [] [],
              existing = Some (doc ''7'' (Some ''2026-03-01'') 100 None), match_type = Probable\<rparr>],
          unmatched = []\<rparr>
   \<and> length (claimed_ids
        \<lparr>matched = [],
         probable =
           [\<lparr>imported = stmt ''2026-03-01'' 100 [] [],
             existing = Some (doc ''7'' (Some ''2026-03-01'') 100 None), match_type = Probable\<rparr>],
         unmatched = []\<rparr>) + 0 = length [stmt ''2026-03-01'' 100 [] []]"
proof -
  have a: "match_transactions [stmt ''2026-03-01'' 100 [] []]
     [doc ''7'' (Some ''2026-03-01'') 100 None] 3
   = Inr \<lparr>matched = [],
          probable =
            [\<lparr>imported = stmt ''2026-03-01'' 100 [] [],
              existing = Some (doc ''7'' (Some ''2026-03-01'') 100 None), match_type = Probable\<rparr>],
          unmatched = []\<rparr>"
    by (simp add: match_eval)
  have b: "match_transactions [stmt ''2026-03-02'' 100 [] []]
     [doc ''7'' (Some ''2026-03-01'') 100 None] 3
   = Inr \<lparr>matched = [],
          probable =
            [\<lparr>imported = stmt ''2026-03-02'' 100 [] [],
              existing = Some (doc ''7'' (Some ''2026-03-01'') 100 None), match_type = Probable\<rparr>],
          unmatched = []\<rparr>"
    by (simp add: match_eval)
  from match_keeps_no_claims [of "[stmt ''2026-03-01'' 100 [] []]"
      "[stmt ''2026-03-02'' 100 [] []]" "[doc ''7'' (Some ''2026-03-01'') 100 None]" 3
      "\<lparr>matched = [],
         probable =
           [\<lparr>imported = stmt ''2026-03-01'' 100 [] [],
             existing = Some (doc ''7'' (Some ''2026-03-01'') 100 None), match_type = Probable\<rparr>],
         unmatched = []\<rparr>"]
  show ?thesis
    unfolding a b by (simp add: merge_results_def)
qed

text \<open>
  C4: when an identifier-matching same-day candidate exists, the statement transaction
  is to be an exact match whatever the order of the candidates. With a tolerance of 999
  days a ledger document whose date does not parse passes the date check (its distance
  is set to 999) and becomes the best match; the next candidate is then compared with it
  by parsing both dates again outside the \<^verbatim>\<open>try\<close> block, and the \<^verbatim>\<open>ValueError\<close>
  leaves the matcher before the identifier-matching document 3 is reached.
\<close>

theorem exact_precedence_failing_run:
  "match_transactions [stmt ''2026-03-01'' (- 100) [] ''1001'']
     [doc ''1'' (Some ''03/01/2026'') 100 None,
      doc ''2'' (Some ''2026-03-02'') 100 None,
      doc ''3'' (Some ''2026-03-01'') 100 (Some ''1001'')] 999
   = Inl (ValueError ''time data does not match format'')"
  by (simp add: match_eval)

text \<open>
  With the identifier-matching document first, the same records give the exact match;
  and below a tolerance of 999 days the first exact candidate always wins.
\<close>

lemma exact_precedence_other_order:
  "match_transactions [stmt ''2026-03-01'' (- 100) [] ''1001'']
     [doc ''3'' (Some ''2026-03-01'') 100 (Some ''1001''),
      doc ''1'' (Some ''03/01/2026'') 100 None,
      doc ''2'' (Some ''2026-03-02'') 100 None] 999
   = Inr \<lparr>matched =
            [\<lparr>imported = stmt ''2026-03-01'' (- 100) [] ''1001'',
              existing = Some (doc ''3'' (Some ''2026-03-01'') 100 (Some ''1001'')),
              match_type = Exact\<rparr>],
          probable = [], unmatched = []\<rparr>"
  by (simp add: match_eval)







text \<open>
  C7, as stated, fails: an identifier match does not rescue a pair with a date that does
  not parse. The check number agrees and the amounts agree, but the statement date is
  in another format, and the transaction is unmatched.
\<close>

theorem unparseable_identifier_counterexample:
  "match_transactions [stmt ''03/01/2026'' 50 [] ''1001'']
     [doc ''4'' (Some ''2026-03-01'') 50 (Some ''1001'')] 3
   = Inr \<lparr>matched = [], probable = [], unmatched = [stmt ''03/01/2026'' 50 [] ''1001'']\<rparr>
   \<and> strptime (take 10 (date (stmt ''03/01/2026'' 50 [] ''1001''))) = None
   \<and> id_match (stmt ''03/01/2026'' 50 [] ''1001'') (doc ''4'' (Some ''2026-03-01'') 50 (Some ''1001''))
   \<and> \<not> amount_differs (stmt ''03/01/2026'' 50 [] ''1001'')
         (doc ''4'' (Some ''2026-03-01'') 50 (Some ''1001''))"
  by (simp add: match_eval)

text \<open>
  C7, amended: when the date of the statement transaction or of the ledger record does
  not parse, the distance of the pair is 999; the pair is never an exact match, whatever
  the identifiers, and it is in no outcome at all unless the tolerance is 999 days or
  more.
\<close>

theorem unparseable_pair_never_exact:
  assumes "strptime (take 10 (date (imported m))) = None
           \<or> strptime (take 10 (dict_get (ex_TxnDate ex) [])) = None"
    and "match_transactions imps exs tol = Inr r"
    and "m \<in> set (matched r @ probable r)"
    and "existing m = Some ex"
  shows "date_distance (imported m) ex = 999 \<and> 999 \<le> tol \<and> m \<notin> set (matched r)"
proof -
  from assms(1) have d: "date_distance (imported m) ex = 999"
    by (auto simp: date_distance_def days_diff_def split: option.splits)
  from match_entries_existing [OF assms(2,3)] assms(4)
  have c: "candidate (imported m) tol ex"
    and e: "match_type m = Exact \<longrightarrow> exact_candidate (imported m) tol ex"
    by auto
  from c d have "999 \<le> tol" by (simp add: candidate_def)
  moreover have "m \<notin> set (matched r)"
  proof
    assume "m \<in> set (matched r)"
    with match_entries(3) [OF assms(2,3)] e have "exact_candidate (imported m) tol ex" by simp
    with d show False by (simp add: exact_candidate_def)
  qed
  ultimately show ?thesis using d by simp
qed

theorem unparseable_pair_never_exact_witness:
  "date_distance (stmt ''03/01/2026'' 50 [] ''1001'')
       (doc ''4'' (Some ''2026-03-01'') 50 (Some ''1001'')) = 999
   \<and> (999::int) \<le> 999
   \<and> match_transactions [stmt ''03/01/2026'' 50 [] ''1001'']
       [doc ''4'' (Some ''2026-03-01'') 50 (Some ''1001'')] 999
     = Inr \<lparr>matched = [],
            probable =
              [\<lparr>imported = stmt ''03/01/2026'' 50 [] ''1001'',
                existing = Some (doc ''4'' (Some ''2026-03-01'') 50 (Some ''1001'')),
                match_type = Probable\<rparr>],
            unmatched = []\<rparr>"
proof -
  have run: "match_transactions [stmt ''03/01/2026'' 50 [] ''1001'']
       [doc ''4'' (Some ''2026-03-01'') 50 (Some ''1001'')] 999
     = Inr \<lparr>matched = [],
            probable =
              [\<lparr>imported = stmt ''03/01/2026'' 50 [] ''1001'',
                existing = Some (doc ''4'' (Some ''2026-03-01'') 50 (Some ''1001'')),
                match_type = Probable\<rparr>],
            unmatched = []\<rparr>"
    by (simp add: match_eval)
  have bad: "strptime (take 10 (date (imported
        \<lparr>imported = stmt ''03/01/2026'' 50 [] ''1001'',
          existing = Some (doc ''4'' (Some ''2026-03-01'') 50 (Some ''1001'')),
          match_type = Probable\<rparr>))) = None
      \<or> strptime (take 10 (dict_get (ex_TxnDate (doc ''4'' (Some ''2026-03-01'') 50 (Some ''1001''))) []))
          = None"
    by (simp add: stmt_def)
  from unparseable_pair_never_exact [OF bad run] run show ?thesis
    by simp
qed

section \<open>Properties of the import command\<close>

lemma statement_dates_blank: "statement_dates (map (\<lambda>t. t\<lparr>date := []\<rparr>) ts) = []"
  by (induction ts) (simp_all add: statement_dates_def)

lemma fetch_existing_prefix:
  "\<exists>new. fst (fetch_existing c ents a b s acc) = acc @ new"
proof (induction ents arbitrary: s acc)
  case Nil
  then show ?case by simp
next
  case (Cons e ents)
  obtain r s' where q: "cl_query c s (import_sql e a b) 500 = (r, s')"
    by (cases "cl_query c s (import_sql e a b) 500")
  show ?case
  proof (cases r)
    case (Inl err)
    with q Cons.IH [of s' acc] show ?thesis by simp
  next
    case (Inr resp)
    from Cons.IH [of s' "acc @ response_items resp e"] obtain new where
      "fst (fetch_existing c ents a b s' (acc @ response_items resp e))
         = (acc @ response_items resp e) @ new"
      by blast
    with q Inr show ?thesis by simp
  qed
qed

lemma fetch_existing_recording:
  "fetch_existing (recording c) ents a b (s, qs) acc =
     (fst (fetch_existing c ents a b s acc),
      (snd (fetch_existing c ents a b s acc),
       qs @ map (\<lambda>e. (import_sql e a b, 500)) ents))"
proof (induction ents arbitrary: s qs acc)
  case Nil
  then show ?case by simp
next
  case (Cons e ents)
  obtain r s' where q: "cl_query c s (import_sql e a b) 500 = (r, s')"
    by (cases "cl_query c s (import_sql e a b) 500")
  then have rq: "cl_query (recording c) (s, qs) (import_sql e a b) 500
      = (r, (s', qs @ [(import_sql e a b, 500)]))"
    by (simp add: recording_def)
  show ?case
    by (cases r) (simp_all add: q rq Cons.IH)
qed

lemma fetch_uncleared_recording:
  "fetch_uncleared (recording c) ents d (s, qs) acc =
     (fst (fetch_uncleared c ents d s acc),
      (snd (fetch_uncleared c ents d s acc),
       qs @ map (\<lambda>e. (start_sql e d, 1000)) ents))"
proof (induction ents arbitrary: s qs acc)
  case Nil
  then show ?case by simp
next
  case (Cons e ents)
  obtain r s' where q: "cl_query c s (start_sql e d) 1000 = (r, s')"
    by (cases "cl_query c s (start_sql e d) 1000")
  then have rq: "cl_query (recording c) (s, qs) (start_sql e d) 1000
      = (r, (s', qs @ [(start_sql e d, 1000)]))"
    by (simp add: recording_def)
  show ?case
    by (cases r) (simp_all add: q rq Cons.IH)
qed

lemma create_unmatched_entries:
  "fst (create_unmatched c acct ts s created) =
     created @ map2 entry_for ts (post_results c acct ts s)"
proof (induction ts arbitrary: s created)
  case Nil
  then show ?case by simp
next
  case (Cons t ts)
  obtain r s' where p: "cl_post c s (fst (create_request acct t)) (snd (create_request acct t))
      = (r, s')"
    by (cases "cl_post c s (fst (create_request acct t)) (snd (create_request acct t))")
  show ?case
  proof (cases "amount t < 0")
    case True
    with p have "cl_post c s ''purchase'' (purchase_of acct t) = (r, s')"
      by (simp add: create_request_def)
    with True p show ?thesis
      by (cases r) (simp_all add: Cons.IH entry_for_def)
  next
    case False
    with p have "cl_post c s ''deposit'' (deposit_of acct t) = (r, s')"
      by (simp add: create_request_def)
    with False p show ?thesis
      by (cases r) (simp_all add: Cons.IH entry_for_def)
  qed
qed

lemma length_post_results: "length (post_results c acct ts s) = length ts"
  by (induction ts arbitrary: s) (simp_all split: prod.splits)

lemma created_txn_entry_for: "created_txn (entry_for t r) = t"
  by (simp add: entry_for_def split: sum.splits)

lemma created_txn_map2:
  "length rs = length ts \<Longrightarrow> map created_txn (map2 entry_for ts rs) = ts"
  by (induction ts rs rule: list_induct2') (simp_all add: created_txn_entry_for)

lemma detail_rows_ok:
  "(\<And>m. m \<in> set ms \<Longrightarrow> existing m \<noteq> None) \<Longrightarrow> \<exists>rows. detail_rows ms = Inr rows"
proof (induction ms)
  case Nil
  then show ?case by simp
next
  case (Cons m ms)
  then obtain rows where "detail_rows ms = Inr rows" by auto
  moreover from Cons.prems [of m] obtain ex where "existing m = Some ex" by auto
  ultimately show ?case by simp
qed

lemma build_report_ok:
  assumes "match_transactions txns exs tol = Inr result"
  shows "\<exists>rp. build_report file_path detected txns result created dry_run = Inr rp
           \<and> d_unmatched (rp_details rp) = unmatched result
           \<and> d_created (rp_details rp) = (if \<not> dry_run then created else [])
           \<and> rp_created rp = (if \<not> dry_run then length created else 0)
           \<and> rp_unmatched rp = length (unmatched result)"
proof -
  have "\<And>m. m \<in> set (matched result) \<Longrightarrow> existing m \<noteq> None"
    using match_entries_existing [OF assms] by fastforce
  from detail_rows_ok [OF this] obtain m_rows where m: "detail_rows (matched result) = Inr m_rows"
    by blast
  have "\<And>m. m \<in> set (probable result) \<Longrightarrow> existing m \<noteq> None"
    using match_entries_existing [OF assms] by fastforce
  from detail_rows_ok [OF this] obtain p_rows where p: "detail_rows (probable result) = Inr p_rows"
    by blast
  from m p show ?thesis by (simp add: build_report_def)
qed

lemmas client_eval = example_client_def recording_def response_items_def dict_get_def
  import_entities_def

lemmas bank_eval = bank_def date_window_def statement_dates_def expand_window_def
  example_shift_def escape_query_value_def quote_def client_eval build_report_def
  create_request_def purchase_of_def deposit_of_def doc_id_def entry_for_def

section \<open>Properties of the reconciliation commands\<close>







section \<open>Claims about the import command\<close>

text \<open>
  C2: a statement that parses to a non-empty list of transactions whose dates are all
  empty is to produce a report from the raw, empty date window. The list of dates is
  then empty and \<^verbatim>\<open>min(dates)\<close>, which stands before the \<^verbatim>\<open>try\<close> block, raises
  \<^verbatim>\<open>ValueError\<close>: the import command stops without a report, whatever the ledger
  answers and also in a dry run, and so does the \<^verbatim>\<open>match\<close> command of the
  reconciliation.
\<close>

theorem blank_dates_raise:
  "bank c shift file_path account_id detected (map (\<lambda>t. t\<lparr>date := []\<rparr>) (t # ts)) dry_run tol s
     = (Inl (ValueError ''min() arg is an empty sequence''), s)
   \<and> reconcile_match c account_id file_path (map (\<lambda>t. t\<lparr>date := []\<rparr>) (t # ts)) tol w
     = (Inl (ValueError ''min() arg is an empty sequence''), w)"
proof -
  have "statement_dates (map (\<lambda>t. t\<lparr>date := []\<rparr>) (t # ts)) = []"
    by (rule statement_dates_blank)
  then show ?thesis
    by (simp add: bank_def reconcile_match_def date_window_def)
qed

text \<open>
  C9: fetching candidates never fails and every query carries the ceiling. Whatever the
  client does, a client that records its queries is asked exactly one query per
  document type, in order, each with \<^verbatim>\<open>max_results\<close> 500 (1000 for the snapshot of
  \<^verbatim>\<open>start\<close>), and the result is the same as without recording; the records fetched are
  appended to those already there; and a type whose query raises contributes nothing,
  the remaining types being fetched from the state the failed query left.
\<close>

theorem fetch_existing_best_effort:
  "fetch_existing (recording c) ents a b (s, qs) acc =
     (fst (fetch_existing c ents a b s acc),
      (snd (fetch_existing c ents a b s acc),
       qs @ map (\<lambda>e. (import_sql e a b, 500)) ents))
   \<and> fetch_uncleared (recording c) ents d (s, qs) seen =
       (fst (fetch_uncleared c ents d s seen),
        (snd (fetch_uncleared c ents d s seen),
         qs @ map (\<lambda>e. (start_sql e d, 1000)) ents))
   \<and> (\<exists>new. fst (fetch_existing c ents a b s acc) = acc @ new)
   \<and> (fst (cl_query c s0 (import_sql e a b) 500) = Inl err \<longrightarrow>
        fetch_existing c (e # ents) a b s0 acc =
          fetch_existing c ents a b (snd (cl_query c s0 (import_sql e a b) 500)) acc)"
proof (intro conjI impI)
  show "fetch_existing (recording c) ents a b (s, qs) acc =
     (fst (fetch_existing c ents a b s acc),
      (snd (fetch_existing c ents a b s acc),
       qs @ map (\<lambda>e. (import_sql e a b, 500)) ents))"
    by (rule fetch_existing_recording)
  show "fetch_uncleared (recording c) ents d (s, qs) seen =
       (fst (fetch_uncleared c ents d s seen),
        (snd (fetch_uncleared c ents d s seen),
         qs @ map (\<lambda>e. (start_sql e d, 1000)) ents))"
    by (rule fetch_uncleared_recording)
  show "\<exists>new. fst (fetch_existing c ents a b s acc) = acc @ new"
    by (rule fetch_existing_prefix)
  assume "fst (cl_query c s0 (import_sql e a b) 500) = Inl err"
  then show "fetch_existing c (e # ents) a b s0 acc =
          fetch_existing c ents a b (snd (cl_query c s0 (import_sql e a b) 500)) acc"
    by (cases "cl_query c s0 (import_sql e a b) 500") simp
qed

theorem fetch_existing_best_effort_witness:
  "fetch_existing (recording example_client) [''Deposit'', ''Transfer''] ''2026-02-26'' ''2026-03-08''
      (1, [(import_sql ''Purchase'' ''2026-02-26'' ''2026-03-08'', 500)]) []
     = ([doc ''12'' (Some ''2026-03-01'') 100 None],
        (3, map (\<lambda>e. (import_sql e ''2026-02-26'' ''2026-03-08'', 500))
              [''Purchase'', ''Deposit'', ''Transfer'']))
   \<and> fetch_existing example_client [''Purchase'', ''Deposit'', ''Transfer'']
        ''2026-02-26'' ''2026-03-08'' 0 []
     = fetch_existing example_client [''Deposit'', ''Transfer''] ''2026-02-26'' ''2026-03-08'' 1 []"
proof -
  have fails: "fst (cl_query example_client 0
      (import_sql ''Purchase'' ''2026-02-26'' ''2026-03-08'') 500) = Inl ''[403] Forbidden''"
    by (simp add: example_client_def)
  have run: "fetch_existing example_client [''Deposit'', ''Transfer'']
      ''2026-02-26'' ''2026-03-08'' 1 [] = ([doc ''12'' (Some ''2026-03-01'') 100 None], 3)"
    by (simp add: client_eval)
  from fetch_existing_best_effort [of example_client "[''Deposit'', ''Transfer'']"
      "''2026-02-26''" "''2026-03-08''" 1
      "[(import_sql ''Purchase'' ''2026-02-26'' ''2026-03-08'', 500)]" "[]" "[]" "[]" 0
      "''Purchase''" "''[403] Forbidden''"] fails run
  show ?thesis
    by (simp add: example_client_def)
qed

text \<open>
  C10: without \<^verbatim>\<open>dry_run\<close>, whenever the run reaches the creation step (the date
  window is computed and the matcher returns), the command returns a report, whatever
  the ledger answers to the creation requests. The list of created entries has one entry
  per unmatched transaction, in order: the entry of a transaction is determined by the
  result of its own request, an error entry with the message when the request raised and
  otherwise the entity and the id of the created document. The count \<^verbatim>\<open>created\<close> is
  the length of that list, error entries included, and so equals the count of unmatched
  transactions.
\<close>

theorem created_entry_per_unmatched:
  assumes "txns \<noteq> []"
    and "date_window shift txns tol = Inr (start_date, end_date)"
    and "fetch_existing c import_entities (escape_query_value start_date)
           (escape_query_value end_date) s [] = (existing_txns, s1)"
    and "match_transactions txns existing_txns tol = Inr result"
  shows "\<exists>rp s2. bank c shift file_path account_id detected txns False tol s = (Inr (Report rp), s2)
     \<and> d_unmatched (rp_details rp) = unmatched result
     \<and> d_created (rp_details rp) =
          map2 entry_for (unmatched result) (post_results c account_id (unmatched result) s1)
     \<and> map created_txn (d_created (rp_details rp)) = unmatched result
     \<and> length (d_created (rp_details rp)) = length (unmatched result)
     \<and> rp_created rp = length (d_created (rp_details rp))
     \<and> rp_unmatched rp = length (unmatched result)"
proof -
  obtain created s2 where cr: "create_unmatched c account_id (unmatched result) s1 [] = (created, s2)"
    by (cases "create_unmatched c account_id (unmatched result) s1 []")
  with create_unmatched_entries [of c account_id "unmatched result" s1 "[]"]
  have created: "created =
      map2 entry_for (unmatched result) (post_results c account_id (unmatched result) s1)"
    by simp
  from build_report_ok [OF assms(4), of file_path detected created False] obtain rp where
    rp: "build_report file_path detected txns result created False = Inr rp"
      "d_unmatched (rp_details rp) = unmatched result"
      "d_created (rp_details rp) = created"
      "rp_created rp = length created"
      "rp_unmatched rp = length (unmatched result)"
    by auto
  from assms cr rp(1) have "bank c shift file_path account_id detected txns False tol s
      = (Inr (Report rp), s2)"
    by (simp add: bank_def)
  moreover have "map created_txn
      (map2 entry_for (unmatched result) (post_results c account_id (unmatched result) s1))
      = unmatched result"
    by (rule created_txn_map2) (simp add: length_post_results)
  ultimately show ?thesis
    using rp created by (simp add: length_post_results)
qed

theorem created_entry_per_unmatched_witness:
  "bank example_client example_shift ''stmt.csv'' ''35'' ''csv''
     [stmt ''2026-03-01'' (- 20) [] [], stmt ''2026-03-01'' 100 [] [], stmt ''2026-03-05'' 30 [] []]
     False 3 0
   = (Inr (Report
        \<lparr>rp_file = ''stmt.csv'', rp_format = ''csv'', rp_total_imported = 3, rp_matched = 0,
         rp_probable_matches = 1, rp_unmatched = 2, rp_created = 2, rp_dry_run = False,
         rp_details =
           \<lparr>d_matched = [],
            d_probable = [(stmt ''2026-03-01'' 100 [] [], Some ''12'')],
            d_unmatched = [stmt ''2026-03-01'' (- 20) [] [], stmt ''2026-03-05'' 30 [] []],
            d_created =
              [Create_failed (stmt ''2026-03-01'' (- 20) [] []) ''[400] Bad request'',
               Created (stmt ''2026-03-05'' 30 [] []) ''Deposit'' (Some ''77'')]\<rparr>\<rparr>), 6)"
proof -
  have h1: "[stmt ''2026-03-01'' (- 20) [] [], stmt ''2026-03-01'' 100 [] [],
      stmt ''2026-03-05'' 30 [] []] \<noteq> []"
    by simp
  have h2: "date_window example_shift
      [stmt ''2026-03-01'' (- 20) [] [], stmt ''2026-03-01'' 100 [] [], stmt ''2026-03-05'' 30 [] []] 3
      = Inr (''2026-03-01'', ''2026-03-01'')"
    by (simp add: bank_eval date_eval stmt_def)
  have h3: "fetch_existing example_client import_entities (escape_query_value ''2026-03-01'')
      (escape_query_value ''2026-03-01'') 0 [] = ([doc ''12'' (Some ''2026-03-01'') 100 None], 4)"
    by (simp add: client_eval)
  have h4: "match_transactions
      [stmt ''2026-03-01'' (- 20) [] [], stmt ''2026-03-01'' 100 [] [], stmt ''2026-03-05'' 30 [] []]
      [doc ''12'' (Some ''2026-03-01'') 100 None] 3
      = Inr \<lparr>matched = [],
             probable =
               [\<lparr>imported = stmt ''2026-03-01'' 100 [] [],
                 existing = Some (doc ''12'' (Some ''2026-03-01'') 100 None),
                 match_type = Probable\<rparr>],
             unmatched = [stmt ''2026-03-01'' (- 20) [] [], stmt ''2026-03-05'' 30 [] []]\<rparr>"
    by (simp add: match_eval)
  from created_entry_per_unmatched [OF h1 h2 h3 h4, of "''stmt.csv''" "''35''" "''csv''"]
  obtain rp s2 where
    b: "bank example_client example_shift ''stmt.csv'' ''35'' ''csv''
         [stmt ''2026-03-01'' (- 20) [] [], stmt ''2026-03-01'' 100 [] [],
          stmt ''2026-03-05'' 30 [] []] False 3 0 = (Inr (Report rp), s2)"
    by blast
  then show ?thesis
    by (auto simp: bank_eval match_eval)
qed

section \<open>Claims about the reconciliation commands\<close>






end
